theory Spec2Isabelle
  imports Complex_Main "HOL-Library.Sublist" "HOL-Library.AList"
begin

section \<open>JavaScript values used by the engine\<close>

text \<open>
  Configuration documents are JSON values, as \<open>JSON.parse\<close> builds them. An
  object is the association list of its own properties in insertion order, the
  order \<open>Object.entries\<close> and \<open>Object.keys\<close> enumerate; a JavaScript object
  never holds one key twice. Its prototype is \<open>Object.prototype\<close>. A number is
  the real number a double stands for; where the code multiplies, the product is
  the one of JavaScript's doubles (see \<open>budgetForModel\<close>).
\<close>

datatype json =
    JNull
  | JBool bool
  | JNum real
  | JStr string
  | JArr "json list"
  | JObj "(string \<times> json) list"

text \<open>\<open>x ?? d\<close>: the default replaces a null or undefined value only.\<close>

definition nullish_or :: "'a option \<Rightarrow> 'a \<Rightarrow> 'a" where
  "nullish_or x d = (case x of Some v \<Rightarrow> v | None \<Rightarrow> d)"

section \<open>config.js: merging the override document over the defaults\<close>

text \<open>
  \<^verbatim>\<open>function deepMerge(base, extra) {
    if (!isObject(base) || !isObject(extra)) return extra;
    const out = { ...base };
    for (const [k, v] of Object.entries(extra)) {
      out[k] = k in out ? deepMerge(out[k], v) : v;
    }
    return out;
  }\<close>
  \<open>isObject\<close> holds of objects only: not of null, arrays or primitives.
  \<open>mergeEntries\<close> is the loop, with \<open>out\<close> as its state. Both \<open>k in out\<close> and
  the assignment \<open>out[k] = ...\<close> follow the prototype chain of \<open>out\<close>, whose
  prototype is \<open>Object.prototype\<close>:
  \<^item> for an own key of \<open>out\<close> the values are merged and the assignment keeps the
    key's position;
  \<^item> for a key that \<open>out\<close> inherits as a method (\<open>toString\<close>, \<open>constructor\<close>,
    ...) the method is merged with \<open>v\<close>, which gives \<open>v\<close> since a function is
    not an object for \<open>isObject\<close>, and the assignment creates an own property:
    the same as for a key that is not in \<open>out\<close> at all, which is appended;
  \<^item> the key \<open>__proto__\<close>, unless \<open>out\<close> has it as an own property (as a parsed
    document can), is the accessor inherited from \<open>Object.prototype\<close>: reading
    it gives the prototype, merging that with \<open>v\<close> gives \<open>v\<close> for a primitive,
    null or an array and a new object for an object, and the assignment calls the
    setter, which ignores a primitive and makes anything else the prototype of
    \<open>out\<close>. An object whose prototype has been replaced is not a JSON value of
    this theory: the result is then \<open>None\<close>.
\<close>

fun is_primitive :: "json \<Rightarrow> bool" where
  "is_primitive (JBool b) = True"
| "is_primitive (JNum r) = True"
| "is_primitive (JStr s) = True"
| "is_primitive j = False"

fun deepMerge :: "json \<Rightarrow> json \<Rightarrow> json option"
  and mergeEntries ::
    "(string \<times> json) list \<Rightarrow> (string \<times> json) list \<Rightarrow> (string \<times> json) list option" where
  "deepMerge (JObj b) (JObj e) = map_option JObj (mergeEntries b e)"
| "deepMerge base extra = Some extra"
| "mergeEntries out [] = Some out"
| "mergeEntries out ((k, v) # es) =
     (case map_of out k of
        Some bv \<Rightarrow>
          (case deepMerge bv v of
             None \<Rightarrow> None
           | Some r \<Rightarrow> mergeEntries (AList.update k r out) es)
      | None \<Rightarrow>
          if k = ''__proto__'' then (if is_primitive v then mergeEntries out es else None)
          else mergeEntries (AList.update k v out) es)"

text \<open>\<open>obj[k]\<close> on a value: undefined (\<open>None\<close>) unless it is an object with that key.\<close>

definition field :: "json \<Rightarrow> string \<Rightarrow> json option" where
  "field j k = (case j of JObj e \<Rightarrow> map_of e k | _ \<Rightarrow> None)"

section \<open>model.js: model names and budgets\<close>

subsection \<open>String operations of the JavaScript library\<close>

text \<open>
  Strings are lists of 8-bit characters; the white space of \<open>trim\<close> and of the
  regular expression class \<open>\s\<close> is the ASCII white space, and \<open>toLowerCase\<close>
  maps the ASCII capitals.
\<close>

definition is_space :: "char \<Rightarrow> bool" where
  "is_space c = (c \<in> set [CHR '' '', CHR 0x09, CHR 0x0A, CHR 0x0B, CHR 0x0C, CHR 0x0D])"

definition trim :: "string \<Rightarrow> string" where
  "trim s = rev (dropWhile is_space (rev (dropWhile is_space s)))"

definition lower_char :: "char \<Rightarrow> char" where
  "lower_char c =
     (let n = (of_char c :: nat) in if 65 \<le> n \<and> n \<le> 90 then char_of (n + 32) else c)"

definition toLowerCase :: "string \<Rightarrow> string" where
  "toLowerCase s = map lower_char s"

text \<open>
  \<open>s.replaceAll(pat, rep)\<close> for a literal, non-empty pattern: matches are taken
  from left to right and do not overlap. Every call in the sources passes a
  non-empty literal; for the empty pattern this function leaves \<open>s\<close> as it is.
\<close>

fun replaceAll :: "string \<Rightarrow> string \<Rightarrow> string \<Rightarrow> string" where
  "replaceAll pat rep [] = []"
| "replaceAll pat rep (c # cs) =
     (if pat \<noteq> [] \<and> prefix pat (c # cs)
      then rep @ replaceAll pat rep (drop (length pat) (c # cs))
      else c # replaceAll pat rep cs)"

text \<open>\<open>.replace(/^gpt\s*/i, "gpt-")\<close>\<close>

definition replace_gpt_prefix :: "string \<Rightarrow> string" where
  "replace_gpt_prefix s =
     (if toLowerCase (take 3 s) = ''gpt'' then ''gpt-'' @ dropWhile is_space (drop 3 s) else s)"

text \<open>\<open>.replace(/\s+/g, "-")\<close>: every maximal run of white space becomes one hyphen.\<close>

function replace_spaces :: "string \<Rightarrow> string" where
  "replace_spaces [] = []"
| "replace_spaces (c # cs) =
     (if is_space c then CHR ''-'' # replace_spaces (dropWhile is_space cs)
      else c # replace_spaces cs)"
  by pat_completeness auto
termination
  by (relation "measure length") (simp_all add: le_imp_less_Suc length_dropWhile_le)

text \<open>\<open>.replace(/--+/g, "-")\<close>: every run of two or more hyphens becomes one.\<close>

function replace_hyphen_runs :: "string \<Rightarrow> string" where
  "replace_hyphen_runs [] = []"
| "replace_hyphen_runs (c # cs) =
     (if c = CHR ''-'' \<and> cs \<noteq> [] \<and> hd cs = CHR ''-''
      then CHR ''-'' # replace_hyphen_runs (dropWhile (\<lambda>d. d = CHR ''-'') cs)
      else c # replace_hyphen_runs cs)"
  by pat_completeness auto
termination
  by (relation "measure length") (simp_all add: le_imp_less_Suc length_dropWhile_le)

subsection \<open>normalizeModelName\<close>

text \<open>
  \<^verbatim>\<open>const s0 = (raw ?? "").trim().toLowerCase();
  if (!s0) return "";
  const beforeAt = s0.split("@")[0] ?? s0;
  const cleaned = beforeAt.startsWith("copilot/") ? beforeAt.slice("copilot/".length) : beforeAt;
  return cleaned.replace(/^gpt\s*/i, "gpt-").replace(/\s+/g, "-")
    .replace(/\(preview\)/g, "").replace(/--+/g, "-").trim();\<close>
  The argument is \<open>None\<close> for an undefined or null \<open>raw\<close>.
\<close>

definition normalizeModelName :: "string option \<Rightarrow> string" where
  "normalizeModelName raw =
     (let s0 = toLowerCase (trim (nullish_or raw [])) in
      if s0 = [] then []
      else
        let beforeAt = takeWhile (\<lambda>c. c \<noteq> CHR ''@'') s0;
            cleaned = (if prefix ''copilot/'' beforeAt
                       then drop (length ''copilot/'') beforeAt else beforeAt)
        in trim (replace_hyphen_runs (replaceAll ''(preview)'' []
                  (replace_spaces (replace_gpt_prefix cleaned)))))"

subsection \<open>The model policy\<close>

text \<open>
  The merged \<open>modelContexts\<close> document as the budget code reads it: every
  property the code reaches through \<open>?.\<close> or defaults with \<open>??\<close> is optional.
  Token counts are integers, the fraction is the real number its double stands for.
\<close>

record model_entry =
  contextWindowTokens :: "int option"

record model_policy =
  targetFractionOfContext :: "real option"
  minBudgetTokens :: "int option"
  maxBudgetTokens :: "int option"

record model_contexts =
  models :: "(string \<times> model_entry) list option"
  policy :: "model_policy option"

text \<open>\<open>ctx.models?.[key]\<close>\<close>

definition model_entry_of :: "model_contexts \<Rightarrow> string \<Rightarrow> model_entry option" where
  "model_entry_of ctx key = Option.bind (models ctx) (\<lambda>ms. map_of ms key)"

text \<open>
  \<^verbatim>\<open>if (ctx.models?.[model]) return model;
  const keys = Object.keys(ctx.models ?? {});
  const found = keys.find((k) => model === k || model.startsWith(`${k}-`));
  return found ?? model;\<close>
\<close>

definition resolveModelKey :: "string \<Rightarrow> model_contexts \<Rightarrow> string" where
  "resolveModelKey model ctx =
     (if model_entry_of ctx model \<noteq> None then model
      else
        let keys = map fst (nullish_or (models ctx) []);
            found = find (\<lambda>k. model = k \<or> prefix (k @ ''-'') model) keys
        in nullish_or found model)"

text \<open>
  \<^verbatim>\<open>const windowTokens = entry?.contextWindowTokens
      ?? ctx.models?.["gpt-4.1"]?.contextWindowTokens ?? 64000;\<close>
\<close>

definition windowTokens :: "string \<Rightarrow> model_contexts \<Rightarrow> int" where
  "windowTokens model ctx =
     (let modelKey = resolveModelKey model ctx;
          entry = model_entry_of ctx modelKey
      in nullish_or (Option.bind entry contextWindowTokens)
           (nullish_or (Option.bind (model_entry_of ctx ''gpt-4.1'') contextWindowTokens) 64000))"

text \<open>
  \<^verbatim>\<open>const target = Math.floor(windowTokens * (ctx.policy?.targetFractionOfContext ?? 0.25));
  const minB = ctx.policy?.minBudgetTokens ?? 6000;
  const maxB = ctx.policy?.maxBudgetTokens ?? 60000;
  return Math.min(maxB, Math.max(minB, target));\<close>
  The operands of \<open>*\<close> are doubles and so is their product, rounded to the
  nearest double: it can differ from the exact product, and the floor with it
  (\<open>100000 * 0.29\<close> is \<open>28999.999999999996\<close>). \<open>mul\<close> is this
  multiplication of doubles, taken from the language.
\<close>

definition budgetForModel :: "(real \<Rightarrow> real \<Rightarrow> real) \<Rightarrow> string \<Rightarrow> model_contexts \<Rightarrow> int" where
  "budgetForModel mul model ctx =
     (let target = \<lfloor>mul (real_of_int (windowTokens model ctx))
                     (nullish_or (Option.bind (policy ctx) targetFractionOfContext) (1 / 4))\<rfloor>;
          minB = nullish_or (Option.bind (policy ctx) minBudgetTokens) 6000;
          maxB = nullish_or (Option.bind (policy ctx) maxBudgetTokens) 60000
      in min maxB (max minB target))"

section \<open>focus_auto.js: the tier list\<close>

text \<open>
  \<^verbatim>\<open>function chooseModes(budgetTokens) {
    if (budgetTokens >= 45000) return ["full", "lite", "lite-compress", "lite-compress-min"];
    if (budgetTokens >= 20000) return ["lite", "lite-compress", "lite-compress-min"];
    return ["lite-compress", "lite-compress-min"];
  }\<close>
\<close>

definition chooseModes :: "int \<Rightarrow> string list" where
  "chooseModes budgetTokens =
     (if budgetTokens \<ge> 45000 then [''full'', ''lite'', ''lite-compress'', ''lite-compress-min'']
      else if budgetTokens \<ge> 20000 then [''lite'', ''lite-compress'', ''lite-compress-min'']
      else [''lite-compress'', ''lite-compress-min''])"

section \<open>The environment: file system, errors, library functions\<close>

text \<open>
  A path names a regular file (with the size \<open>statSync\<close> reports and the text
  \<open>readFileSync\<close> returns), a directory, or nothing. Paths are plain strings:
  \<open>join\<close> puts a slash between its arguments, \<open>relative\<close> removes the root and
  its slash and \<open>dirname\<close> is the text before the last slash, without the
  normalisation of \<open>node:path\<close>.
\<close>

datatype node = RegFile nat string | Directory

type_synonym fs = "string \<Rightarrow> node option"

datatype error =
    SyntaxError
  | FsError string string
  | Error string
  | IllTyped

text \<open>
  \<open>SyntaxError\<close> is what \<open>JSON.parse\<close> raises, \<open>FsError code path\<close> what a
  \<open>node:fs\<close> call raises, \<open>Error message\<close> is \<open>new Error(message)\<close>.
  \<open>IllTyped\<close> marks a configuration document to which this theory gives no
  meaning: one whose fields do not have the JSON types the code expects
  (JavaScript would coerce such values or raise \<open>TypeError\<close>), or one whose
  merge replaces a prototype. The code itself may well load such a document.
\<close>

definition join :: "string \<Rightarrow> string \<Rightarrow> string" where
  "join a b = a @ ''/'' @ b"

definition dirname :: "string \<Rightarrow> string" where
  "dirname p = rev (drop 1 (dropWhile (\<lambda>c. c \<noteq> CHR ''/'') (rev p)))"

definition relative :: "string \<Rightarrow> string \<Rightarrow> string" where
  "relative rootDir p = (if prefix (rootDir @ ''/'') p then drop (length rootDir + 1) p else p)"

definition existsSync :: "fs \<Rightarrow> string \<Rightarrow> bool" where
  "existsSync fs p = (fs p \<noteq> None)"

definition statSync :: "fs \<Rightarrow> string \<Rightarrow> error + node" where
  "statSync fs p = (case fs p of None \<Rightarrow> Inl (FsError ''ENOENT'' p) | Some n \<Rightarrow> Inr n)"

fun isFile :: "node \<Rightarrow> bool" where
  "isFile (RegFile sz text) = True"
| "isFile Directory = False"

fun size_of :: "node \<Rightarrow> nat" where
  "size_of (RegFile sz text) = sz"
| "size_of Directory = 0"

definition readFileSync :: "fs \<Rightarrow> string \<Rightarrow> error + string" where
  "readFileSync fs p =
     (case fs p of
        None \<Rightarrow> Inl (FsError ''ENOENT'' p)
      | Some Directory \<Rightarrow> Inl (FsError ''EISDIR'' p)
      | Some (RegFile sz text) \<Rightarrow> Inr text)"

text \<open>
  \<open>mkdirSync(p, { recursive: true })\<close> creates \<open>p\<close> and every missing directory
  above it: \<open>parent_dirs p\<close> are the prefixes of \<open>p\<close> that end before a slash.
  It raises when one of them, or \<open>p\<close> itself, is a regular file, and then
  creates nothing.
\<close>

fun dirs_of :: "string \<Rightarrow> string \<Rightarrow> string list" where
  "dirs_of pre [] = []"
| "dirs_of pre (c # cs) =
     (if c = CHR ''/'' \<and> pre \<noteq> [] \<and> last pre \<noteq> CHR ''/'' then [pre] else [])
     @ dirs_of (pre @ [c]) cs"

definition parent_dirs :: "string \<Rightarrow> string list" where
  "parent_dirs p = dirs_of [] p"

definition is_regular :: "fs \<Rightarrow> string \<Rightarrow> bool" where
  "is_regular fs p = (case fs p of Some n \<Rightarrow> isFile n | None \<Rightarrow> False)"

definition with_dirs :: "fs \<Rightarrow> string list \<Rightarrow> fs" where
  "with_dirs fs ds = (\<lambda>q. if q \<in> set ds then Some Directory else fs q)"

definition mkdirSync_recursive :: "fs \<Rightarrow> string \<Rightarrow> error + fs" where
  "mkdirSync_recursive fs p =
     (if list_ex (is_regular fs) (parent_dirs p) then Inl (FsError ''ENOTDIR'' p)
      else if is_regular fs p then Inl (FsError ''EEXIST'' p)
      else Inr (with_dirs fs (parent_dirs p @ [p])))"

text \<open>
  A write needs the directory of its path to exist, and does not replace a
  directory. \<open>copyFileSync\<close> copies a regular file, size and text.
\<close>

definition writeFileSync :: "fs \<Rightarrow> string \<Rightarrow> string \<Rightarrow> error + fs" where
  "writeFileSync fs p text =
     (if fs (dirname p) \<noteq> Some Directory then Inl (FsError ''ENOENT'' p)
      else case fs p of
        Some Directory \<Rightarrow> Inl (FsError ''EISDIR'' p)
      | _ \<Rightarrow> Inr (fs(p \<mapsto> RegFile (length text) text)))"

definition copyFileSync :: "fs \<Rightarrow> string \<Rightarrow> string \<Rightarrow> error + fs" where
  "copyFileSync fs src dest =
     (case fs src of
        None \<Rightarrow> Inl (FsError ''ENOENT'' src)
      | Some Directory \<Rightarrow> Inl (FsError ''EISDIR'' src)
      | Some (RegFile sz text) \<Rightarrow>
          if fs (dirname dest) \<noteq> Some Directory then Inl (FsError ''ENOENT'' dest)
          else (case fs dest of
                  Some Directory \<Rightarrow> Inl (FsError ''EISDIR'' dest)
                | _ \<Rightarrow> Inr (fs(dest \<mapsto> RegFile sz text))))"

text \<open>
  What the engine takes from outside the repository's own code:
  \<^item> the environment variables, the home directory, the temporary directory and
    the process id (as its decimal text);
  \<^item> the text of the \<open>i\<close>-th \<open>Math.random().toString(16).slice(2)\<close>;
  \<^item> the external program \<open>sqlite3\<close>: whether \<open>sqlite3 --version\<close> exits with
    status 0, and for the query on a snapshot whether it does and what it prints
    (what the program itself may write next to the snapshot is not followed);
  \<^item> the multiplication of doubles;
  \<^item> the glob expansion of \<open>fast-glob\<close> (file system, cwd, include patterns,
    ignore patterns) and the matcher of the \<open>ignore\<close> package (the rule texts
    added, the relative path);
  \<^item> \<open>JSON.parse\<close> (\<open>None\<close> where it raises) and \<open>JSON.stringify(_, null, 2)\<close>.
\<close>

record env =
  COPILOT_MODEL :: "string option"
  VSCODE_COPILOT_MODEL :: "string option"
  LM_MODEL :: "string option"
  APPDATA :: "string option"
  homedir :: string
  tmpdir :: string
  pid :: string
  random_hex :: "nat \<Rightarrow> string"
  sqlite3_version_ok :: bool
  sqlite3_query :: "fs \<Rightarrow> string \<Rightarrow> bool \<times> string"
  js_times :: "real \<Rightarrow> real \<Rightarrow> real"
  fast_glob :: "fs \<Rightarrow> string \<Rightarrow> string list \<Rightarrow> string list \<Rightarrow> string list"
  ig_ignores :: "string list \<Rightarrow> string \<Rightarrow> bool"
  JSON_parse :: "string \<Rightarrow> json option"
  JSON_stringify :: "json \<Rightarrow> string"

section \<open>config.js: loading the configuration\<close>

record token_estimator =
  charsPerToken :: int
  maxFileBytes :: int

record config =
  cfg_outputDir :: string
  cfg_modelContexts :: model_contexts
  cfg_preset :: string
  cfg_tokenEstimator :: token_estimator

definition DEFAULT_OUTPUT_DIR :: string where
  "DEFAULT_OUTPUT_DIR = ''.context-slicer''"

definition DEFAULT_MODEL_CONTEXTS :: json where
  "DEFAULT_MODEL_CONTEXTS =
     JObj [(''models'', JObj
              [(''gpt-4.1'', JObj [(''contextWindowTokens'', JNum 64000)]),
               (''gpt-4o'', JObj [(''contextWindowTokens'', JNum 64000)]),
               (''gpt-5'', JObj [(''contextWindowTokens'', JNum 128000)]),
               (''gpt-5-mini'', JObj [(''contextWindowTokens'', JNum 128000)]),
               (''gpt-5.1'', JObj [(''contextWindowTokens'', JNum 128000)]),
               (''gpt-5.1-codex'', JObj [(''contextWindowTokens'', JNum 128000)]),
               (''gpt-5.2'', JObj [(''contextWindowTokens'', JNum 128000)]),
               (''gpt-5.2-codex'', JObj [(''contextWindowTokens'', JNum 272000)]),
               (''gpt-5.3-codex'', JObj [(''contextWindowTokens'', JNum 272000)])]),
           (''policy'', JObj
              [(''targetFractionOfContext'', JNum (1 / 4)),
               (''minBudgetTokens'', JNum 6000),
               (''maxBudgetTokens'', JNum 60000)])]"

text \<open>
  Reading a property at the type the code uses it at. \<open>opt_field j k\<close> is
  \<open>j?.k\<close> as \<open>??\<close> sees it (null and undefined alike are \<open>None\<close>). A
  \<open>read_\<close> function returns \<open>Some None\<close> for an absent property,
  \<open>Some (Some v)\<close> for a value of the expected type and \<open>None\<close> for a value of
  another type.
\<close>

definition opt_field :: "json \<Rightarrow> string \<Rightarrow> json option" where
  "opt_field j k = (case field j k of Some JNull \<Rightarrow> None | r \<Rightarrow> r)"

fun read_string :: "json option \<Rightarrow> string option option" where
  "read_string None = Some None"
| "read_string (Some (JStr s)) = Some (Some s)"
| "read_string (Some j) = None"

fun read_real :: "json option \<Rightarrow> real option option" where
  "read_real None = Some None"
| "read_real (Some (JNum r)) = Some (Some r)"
| "read_real (Some j) = None"

fun read_int :: "json option \<Rightarrow> int option option" where
  "read_int None = Some None"
| "read_int (Some (JNum r)) = (if of_int \<lfloor>r\<rfloor> = r then Some (Some \<lfloor>r\<rfloor>) else None)"
| "read_int (Some j) = None"

definition read_entry :: "json \<Rightarrow> model_entry option" where
  "read_entry j =
     (case j of
        JObj e \<Rightarrow> map_option (\<lambda>w. \<lparr>contextWindowTokens = w\<rparr>) (read_int (opt_field j ''contextWindowTokens''))
      | _ \<Rightarrow> None)"

fun read_entries :: "(string \<times> json) list \<Rightarrow> (string \<times> model_entry) list option" where
  "read_entries [] = Some []"
| "read_entries ((k, j) # es) =
     (case (read_entry j, read_entries es) of
        (Some m, Some ms) \<Rightarrow> Some ((k, m) # ms)
      | _ \<Rightarrow> None)"

fun read_models :: "json option \<Rightarrow> (string \<times> model_entry) list option option" where
  "read_models None = Some None"
| "read_models (Some (JObj e)) = map_option Some (read_entries e)"
| "read_models (Some j) = None"

fun read_policy :: "json option \<Rightarrow> model_policy option option" where
  "read_policy None = Some None"
| "read_policy (Some (JObj e)) =
     (case (read_real (opt_field (JObj e) ''targetFractionOfContext''),
            read_int (opt_field (JObj e) ''minBudgetTokens''),
            read_int (opt_field (JObj e) ''maxBudgetTokens'')) of
        (Some f, Some lo, Some hi) \<Rightarrow>
          Some (Some \<lparr>targetFractionOfContext = f, minBudgetTokens = lo, maxBudgetTokens = hi\<rparr>)
      | _ \<Rightarrow> None)"
| "read_policy (Some j) = None"

definition read_model_contexts :: "json \<Rightarrow> model_contexts option" where
  "read_model_contexts j =
     (case j of
        JObj e \<Rightarrow>
          (case (read_models (opt_field j ''models''), read_policy (opt_field j ''policy'')) of
             (Some ms, Some p) \<Rightarrow> Some \<lparr>models = ms, policy = p\<rparr>
           | _ \<Rightarrow> None)
      | _ \<Rightarrow> None)"

text \<open>
  \<^verbatim>\<open>return {
    outputDir: user.outputDir ?? DEFAULT_OUTPUT_DIR,
    modelContexts: deepMerge(DEFAULT_MODEL_CONTEXTS, user.modelContexts ?? {}),
    preset: user.preset ?? "auto",
    tokenEstimator: {
      charsPerToken: user.tokenEstimator?.charsPerToken ?? 4,
      maxFileBytes: user.tokenEstimator?.maxFileBytes ?? 1024 * 1024
    }
  };\<close>
\<close>

definition typed_config :: "json \<Rightarrow> config option" where
  "typed_config user =
     (case user of
        JObj e \<Rightarrow>
          Option.bind (read_string (opt_field user ''outputDir'')) (\<lambda>od.
          Option.bind (Option.bind
             (deepMerge DEFAULT_MODEL_CONTEXTS (nullish_or (opt_field user ''modelContexts'') (JObj [])))
             read_model_contexts) (\<lambda>mc.
          Option.bind (read_string (opt_field user ''preset'')) (\<lambda>pr.
          Option.bind (read_int (Option.bind (opt_field user ''tokenEstimator'')
                                   (\<lambda>t. opt_field t ''charsPerToken''))) (\<lambda>cpt.
          Option.bind (read_int (Option.bind (opt_field user ''tokenEstimator'')
                                   (\<lambda>t. opt_field t ''maxFileBytes''))) (\<lambda>mfb.
          Some \<lparr>cfg_outputDir = nullish_or od DEFAULT_OUTPUT_DIR,
                cfg_modelContexts = mc,
                cfg_preset = nullish_or pr ''auto'',
                cfg_tokenEstimator = \<lparr>charsPerToken = nullish_or cpt 4,
                                       maxFileBytes = nullish_or mfb (1024 * 1024)\<rparr>\<rparr>)))))
      | _ \<Rightarrow> None)"

text \<open>
  \<^verbatim>\<open>const configPath = join(repoRoot, ".context-slicer.json");
  const user = existsSync(configPath) ? JSON.parse(readFileSync(configPath, "utf8")) : {};\<close>
\<close>

definition loadConfig :: "env \<Rightarrow> fs \<Rightarrow> string \<Rightarrow> error + config" where
  "loadConfig E fs repoRoot =
     (let configPath = join repoRoot ''.context-slicer.json'' in
      if existsSync fs configPath then
        (case readFileSync fs configPath of
           Inl e \<Rightarrow> Inl e
         | Inr text \<Rightarrow>
             (case JSON_parse E text of
                None \<Rightarrow> Inl SyntaxError
              | Some user \<Rightarrow> (case typed_config user of None \<Rightarrow> Inl IllTyped | Some cfg \<Rightarrow> Inr cfg)))
      else (case typed_config (JObj []) of None \<Rightarrow> Inl IllTyped | Some cfg \<Rightarrow> Inr cfg))"

section \<open>packer.js: discovery, estimate and packing\<close>

definition DEFAULT_IGNORE :: "string list" where
  "DEFAULT_IGNORE =
     [''**/.git/**'', ''**/node_modules/**'', ''**/dist/**'', ''**/target/**'',
      ''**/.context-slicer/**'', ''**/.DS_Store'']"

text \<open>
  \<^verbatim>\<open>function loadGitignore(repoRoot) {
    const p = join(repoRoot, ".gitignore");
    if (!existsSync(p)) return null;
    try { return readFileSync(p, "utf8"); } catch { return null; }
  }\<close>
\<close>

definition loadGitignore :: "fs \<Rightarrow> string \<Rightarrow> string option" where
  "loadGitignore fs repoRoot =
     (let p = join repoRoot ''.gitignore'' in
      if \<not> existsSync fs p then None
      else (case readFileSync fs p of Inl e \<Rightarrow> None | Inr text \<Rightarrow> Some text))"

text \<open>
  \<open>createGitignoreFilter\<close>: the rule texts added to the matcher are the
  \<open>.gitignore\<close> text when it is a non-empty string, then the extra patterns;
  the filter keeps a path that the matcher does not ignore.
\<close>

definition createGitignoreFilter :: "env \<Rightarrow> fs \<Rightarrow> string \<Rightarrow> string list \<Rightarrow> string \<Rightarrow> bool" where
  "createGitignoreFilter E fs repoRoot extraPatterns =
     (let gitignoreText = loadGitignore fs repoRoot;
          rules = (case gitignoreText of Some t \<Rightarrow> (if t \<noteq> [] then [t] else []) | None \<Rightarrow> [])
                  @ extraPatterns
      in (\<lambda>absPath.
            let rel = replaceAll [CHR 0x5C] ''/'' (relative repoRoot absPath)
            in \<not> ig_ignores E rules rel))"

definition listFiles :: "env \<Rightarrow> fs \<Rightarrow> string \<Rightarrow> string list \<Rightarrow> string list \<Rightarrow> string list" where
  "listFiles E fs repoRoot include extraIgnore =
     (let ignorePatterns = DEFAULT_IGNORE @ extraIgnore;
          relPaths = fast_glob E fs repoRoot include ignorePatterns;
          absPaths = map (\<lambda>p. join repoRoot p) relPaths;
          keep = createGitignoreFilter E fs repoRoot []
      in filter keep absPaths)"

text \<open>
  \<open>Math.ceil(totalBytes / charsPerToken)\<close>. The quotient of a byte count by zero
  is \<open>Infinity\<close>, or \<open>NaN\<close> for zero bytes; neither is \<open>\<le>\<close> any budget.
\<close>

datatype jsnum = Fin int | PosInf | NaN

definition estimateTokensFromBytes :: "nat \<Rightarrow> int \<Rightarrow> jsnum" where
  "estimateTokensFromBytes totalBytes cpt =
     (if cpt = 0 then (if totalBytes = 0 then NaN else PosInf)
      else Fin \<lceil>real totalBytes / real_of_int cpt\<rceil>)"

fun js_le :: "jsnum \<Rightarrow> int \<Rightarrow> bool" where
  "js_le (Fin n) b = (n \<le> b)"
| "js_le PosInf b = False"
| "js_le NaN b = False"

fun js_gt :: "jsnum \<Rightarrow> int \<Rightarrow> bool" where
  "js_gt (Fin n) b = (n > b)"
| "js_gt PosInf b = True"
| "js_gt NaN b = False"

text \<open>
  \<^verbatim>\<open>export function sumFileSizes(paths) {
    let total = 0;
    for (const p of paths) {
      try {
        const st = statSync(p);
        if (st.isFile()) total += st.size;
      } catch { /* ignore */ }
    }
    return total;
  }\<close>
\<close>

fun sumFileSizes_from :: "fs \<Rightarrow> nat \<Rightarrow> string list \<Rightarrow> nat" where
  "sumFileSizes_from fs totalBytes [] = totalBytes"
| "sumFileSizes_from fs totalBytes (p # ps) =
     sumFileSizes_from fs
       (case statSync fs p of
          Inl e \<Rightarrow> totalBytes
        | Inr st \<Rightarrow> (if isFile st then totalBytes + size_of st else totalBytes))
       ps"

definition sumFileSizes :: "fs \<Rightarrow> string list \<Rightarrow> nat" where
  "sumFileSizes fs paths = sumFileSizes_from fs 0 paths"

text \<open>
  \<^verbatim>\<open>function safeReadText(filePath, maxBytes) {
    const st = statSync(filePath);
    if (!st.isFile()) return null;
    if (st.size > maxBytes) return null;
    return readFileSync(filePath, "utf8");
  }\<close>
\<close>

definition safeReadText :: "fs \<Rightarrow> string \<Rightarrow> int \<Rightarrow> error + string option" where
  "safeReadText fs filePath maxBytes =
     (case statSync fs filePath of
        Inl e \<Rightarrow> Inl e
      | Inr st \<Rightarrow>
          if \<not> isFile st then Inr None
          else if int (size_of st) > maxBytes then Inr None
          else (case readFileSync fs filePath of Inl e \<Rightarrow> Inl e | Inr text \<Rightarrow> Inr (Some text)))"

text \<open>\<open>text.split(/\r?\n/)\<close> and \<open>lines.join("\n")\<close>\<close>

fun split_lines :: "string \<Rightarrow> string list" where
  "split_lines [] = [[]]"
| "split_lines [c] = (if c = CHR 0x0A then [[], []] else [[c]])"
| "split_lines (c # d # cs) =
     (if c = CHR 0x0A then [] # split_lines (d # cs)
      else if c = CHR 0x0D \<and> d = CHR 0x0A then [] # split_lines cs
      else (case split_lines (d # cs) of l # ls \<Rightarrow> (c # l) # ls | [] \<Rightarrow> [[c]]))"

fun join_with :: "string \<Rightarrow> string list \<Rightarrow> string" where
  "join_with sep [] = []"
| "join_with sep [x] = x"
| "join_with sep (x # y # ys) = x @ sep @ join_with sep (y # ys)"

definition stripEmptyLines :: "string \<Rightarrow> string" where
  "stripEmptyLines text =
     join_with ''\<newline>'' (filter (\<lambda>l. length (trim l) > 0) (split_lines text))"

definition escapeXmlAttr :: "string \<Rightarrow> string" where
  "escapeXmlAttr s =
     replaceAll ''>'' ''&gt;''
       (replaceAll ''<'' ''&lt;''
         (replaceAll [CHR 0x22] ''&quot;''
           (replaceAll ''&'' ''&amp;'' s)))"

text \<open>
  \<^verbatim>\<open>function cdata(text) {
    // Avoid closing the CDATA section.
    return "<![CDATA[" + text.replaceAll("]]>", "]]]]><![CDATA[>") + "]]>";
  }\<close>
\<close>

definition cdata :: "string \<Rightarrow> string" where
  "cdata text = ''<![CDATA['' @ replaceAll '']]>'' '']]]]><![CDATA[>'' text @ '']]>''"

text \<open>
  \<open>buildXml\<close>: the loop over \<open>filePaths\<close> with its state \<open>totalChars\<close> and
  \<open>entries\<close>; an exception of \<open>statSync\<close> or \<open>readFileSync\<close> in
  \<open>safeReadText\<close> is not caught and ends the call.
  \<^verbatim>\<open>entries.push(`  <file path="${escapeXmlAttr(rel)}">${cdata(content)}</file>`);\<close>
\<close>

definition file_entry :: "string \<Rightarrow> string \<Rightarrow> string" where
  "file_entry rel content =
     ''  <file path='' @ [CHR 0x22] @ escapeXmlAttr rel @ [CHR 0x22] @ ''>'' @ cdata content @ ''</file>''"

fun buildXml_loop ::
  "fs \<Rightarrow> string \<Rightarrow> int \<Rightarrow> bool \<Rightarrow> nat \<times> string list \<Rightarrow> string list \<Rightarrow> error + nat \<times> string list" where
  "buildXml_loop fs repoRoot maxBytes removeEmptyLines (totalChars, entries) [] =
     Inr (totalChars, entries)"
| "buildXml_loop fs repoRoot maxBytes removeEmptyLines (totalChars, entries) (absPath # rest) =
     (let rel = replaceAll [CHR 0x5C] ''/'' (relative repoRoot absPath) in
      case safeReadText fs absPath maxBytes of
        Inl e \<Rightarrow> Inl e
      | Inr None \<Rightarrow> buildXml_loop fs repoRoot maxBytes removeEmptyLines (totalChars, entries) rest
      | Inr (Some contentRaw) \<Rightarrow>
          (let content = (if removeEmptyLines then stripEmptyLines contentRaw else contentRaw) in
           buildXml_loop fs repoRoot maxBytes removeEmptyLines
             (totalChars + length content, entries @ [file_entry rel content]) rest))"

record built =
  xml :: string
  totalChars :: nat
  totalFiles :: nat

definition document :: "string list \<Rightarrow> string" where
  "document entries =
     join_with ''\<newline>'' ([''<context_slicer>''] @ entries @ [''</context_slicer>'', []])"

definition buildXml :: "fs \<Rightarrow> string \<Rightarrow> string list \<Rightarrow> int \<Rightarrow> bool \<Rightarrow> error + built" where
  "buildXml fs repoRoot filePaths maxBytes removeEmptyLines =
     (case buildXml_loop fs repoRoot maxBytes removeEmptyLines (0, []) filePaths of
        Inl e \<Rightarrow> Inl e
      | Inr (chars, entries) \<Rightarrow>
          Inr \<lparr>xml = document entries, totalChars = chars, totalFiles = length entries\<rparr>)"

section \<open>Reading a packed document\<close>















section \<open>preset.js\<close>

definition detectPreset :: "fs \<Rightarrow> string \<Rightarrow> string" where
  "detectPreset fs repoRoot =
     (let hasApps = existsSync fs (join repoRoot ''apps'');
          hasLibs = existsSync fs (join repoRoot ''libs'');
          hasServices = existsSync fs (join repoRoot ''services'')
      in if hasApps \<and> (hasLibs \<or> hasServices) then ''polylith''
         else if existsSync fs (join repoRoot ''src-tauri'') \<and> existsSync fs (join repoRoot ''src'')
         then ''tauri-root''
         else ''generic'')"

record plan =
  plan_include :: "string list"
  plan_mode :: string

definition repomixArgsFor :: "string \<Rightarrow> string \<Rightarrow> string \<Rightarrow> string \<Rightarrow> plan" where
  "repomixArgsFor preset target outputDir mode =
     \<lparr>plan_include =
        (if preset = ''tauri-root'' then
           [''src/**/'' @ target @ ''/**'', ''src-tauri/**/'' @ target @ ''/**'',
            ''src/**'', ''src-tauri/**'', ''docs/**'', ''README*'', ''package.json'']
         else if preset = ''polylith'' then
           [''apps/desktop/src/modules/'' @ target @ ''/**'',
            ''apps/web/src/components/'' @ target @ ''/**'',
            ''libs/**'', ''proto/**'', ''docs/**'', ''README*'']
         else
           [(if target \<noteq> [] \<and> CHR ''*'' \<in> set target then target else target @ ''/**''),
            ''src/**'', ''lib/**'', ''docs/**'', ''README*'', ''package.json'']),
      plan_mode = mode\<rparr>"

text \<open>\<open>a || b\<close> on optional strings: undefined, null and the empty string are falsy.\<close>

fun truthy :: "string option \<Rightarrow> bool" where
  "truthy None = False"
| "truthy (Some s) = (s \<noteq> [])"

definition js_or :: "string option \<Rightarrow> string option \<Rightarrow> string option" where
  "js_or a b = (if truthy a then a else b)"

section \<open>vscode_detect.js: the model hint from the editor's state\<close>

text \<open>
  \<^verbatim>\<open>candidates.push(join(home, "Library", "Application Support", "Code", "User", "globalStorage", "state.vscdb"));
  candidates.push(join(home, "Library", "Application Support", "Code - Insiders", "User", "globalStorage", "state.vscdb"));
  candidates.push(join(home, ".config", "Code", "User", "globalStorage", "state.vscdb"));
  candidates.push(join(home, ".config", "Code - Insiders", "User", "globalStorage", "state.vscdb"));
  if (appData) {
    candidates.push(join(appData, "Code", "User", "globalStorage", "state.vscdb"));
    candidates.push(join(appData, "Code - Insiders", "User", "globalStorage", "state.vscdb"));
  }\<close>
\<close>

definition candidates :: "env \<Rightarrow> string list" where
  "candidates E =
     (let home = homedir E in
      [foldl join home [''Library'', ''Application Support'', ''Code'', ''User'', ''globalStorage'', ''state.vscdb''],
       foldl join home [''Library'', ''Application Support'', ''Code - Insiders'', ''User'', ''globalStorage'', ''state.vscdb''],
       foldl join home [''.config'', ''Code'', ''User'', ''globalStorage'', ''state.vscdb''],
       foldl join home [''.config'', ''Code - Insiders'', ''User'', ''globalStorage'', ''state.vscdb'']]
      @ (if truthy (APPDATA E) then
           [foldl join (nullish_or (APPDATA E) []) [''Code'', ''User'', ''globalStorage'', ''state.vscdb''],
            foldl join (nullish_or (APPDATA E) []) [''Code - Insiders'', ''User'', ''globalStorage'', ''state.vscdb'']]
         else []))"

text \<open>
  \<^verbatim>\<open>const snapshot = join(tmpdir(), `vscode-state-${process.pid}-${Math.random().toString(16).slice(2)}.vscdb`);\<close>
\<close>

definition snapshot_path :: "env \<Rightarrow> nat \<Rightarrow> string" where
  "snapshot_path E i =
     join (tmpdir E) (''vscode-state-'' @ pid E @ ''-'' @ random_hex E i @ ''.vscdb'')"

text \<open>
  \<^verbatim>\<open>parsed?.["VSCode.ABExp.FeatureData"]?.value?.configs?.[0]?.Parameters?.["chat.defaultLanguageModel"]\<close>
  The element \<open>0\<close> is the first element of an array or the property \<open>"0"\<close> of
  an object; the character that a string has there has no \<open>Parameters\<close>, so the
  whole chain is undefined for it as it is here.
\<close>

fun index0 :: "json \<Rightarrow> json option" where
  "index0 (JArr (x # xs)) = (if x = JNull then None else Some x)"
| "index0 (JObj e) = opt_field (JObj e) ''0''"
| "index0 j = None"

definition defaultLanguageModel :: "json \<Rightarrow> json option" where
  "defaultLanguageModel parsed =
     Option.bind (Option.bind (Option.bind (Option.bind (Option.bind
       (opt_field parsed ''VSCode.ABExp.FeatureData'')
       (\<lambda>x. opt_field x ''value''))
       (\<lambda>x. opt_field x ''configs''))
       index0)
       (\<lambda>x. opt_field x ''Parameters''))
       (\<lambda>x. opt_field x ''chat.defaultLanguageModel'')"

text \<open>
  The loop over the candidates; \<open>i\<close> counts the calls of \<open>Math.random\<close>.
  \<^verbatim>\<open>for (const p of candidates) {
    if (!existsSync(p)) continue;
    const snapshot = ...;
    try { copyFileSync(p, snapshot); } catch { continue; }
    const res = tryExec("sqlite3", [snapshot, q]);
    if (!res.ok) continue;
    try {
      const parsed = JSON.parse(res.stdout);
      const raw = ...;
      if (typeof raw === "string" && raw.length) {
        const model = normalizeModelName(raw);
        if (model) return model;
      }
    } catch { /* ignore */ }
  }
  return null;\<close>
  The snapshot is never removed. The result pairs the model name, or null, with
  the file system the probe leaves.
\<close>

fun detect_loop :: "env \<Rightarrow> nat \<Rightarrow> fs \<Rightarrow> string list \<Rightarrow> string option \<times> fs" where
  "detect_loop E i fs [] = (None, fs)"
| "detect_loop E i fs (p # ps) =
     (if \<not> existsSync fs p then detect_loop E i fs ps
      else
        case copyFileSync fs p (snapshot_path E i) of
          Inl e \<Rightarrow> detect_loop E (Suc i) fs ps
        | Inr fs1 \<Rightarrow>
            (let res = sqlite3_query E fs1 (snapshot_path E i) in
             if \<not> fst res then detect_loop E (Suc i) fs1 ps
             else
               case Option.bind (JSON_parse E (snd res)) defaultLanguageModel of
                 Some (JStr raw) \<Rightarrow>
                   if raw \<noteq> [] \<and> normalizeModelName (Some raw) \<noteq> []
                   then (Some (normalizeModelName (Some raw)), fs1)
                   else detect_loop E (Suc i) fs1 ps
               | _ \<Rightarrow> detect_loop E (Suc i) fs1 ps))"

text \<open>
  \<^verbatim>\<open>const hasSqlite = tryExec("sqlite3", ["--version"]).ok;
  if (!hasSqlite) return null;\<close>
\<close>

definition detectModelFromVSCodeGlobalState :: "env \<Rightarrow> fs \<Rightarrow> string option \<times> fs" where
  "detectModelFromVSCodeGlobalState E fs =
     (if \<not> sqlite3_version_ok E then (None, fs) else detect_loop E 0 fs (candidates E))"

section \<open>focus_auto.js: the budget fitter\<close>

text \<open>The decimal text of an integer, as a template literal prints a budget.\<close>

fun digits :: "nat \<Rightarrow> string" where
  "digits n =
     (if n < 10 then [''0123456789'' ! n]
      else digits (n div 10) @ [''0123456789'' ! (n mod 10)])"

declare digits.simps [simp del]

definition show_int :: "int \<Rightarrow> string" where
  "show_int i = (if i < 0 then CHR ''-'' # digits (nat (- i)) else digits (nat i))"

record args =
  repoRoot :: string
  target :: string
  modelId :: "string option"
  budgetTokens :: "int option"

text \<open>
  \<^verbatim>\<open>const envModel = process.env.COPILOT_MODEL || process.env.VSCODE_COPILOT_MODEL || process.env.LM_MODEL;
  const detected = detectModelFromVSCodeGlobalState();
  const resolvedModel =
    normalizeModelName(modelId) || normalizeModelName(envModel) || detected || "gpt-4.1";\<close>
  \<open>detected\<close> is what the probe has returned.
\<close>

definition resolvedModel :: "env \<Rightarrow> string option \<Rightarrow> args \<Rightarrow> string" where
  "resolvedModel E detected a =
     (let envModel = js_or (js_or (COPILOT_MODEL E) (VSCODE_COPILOT_MODEL E)) (LM_MODEL E)
      in nullish_or
           (js_or (js_or (js_or (Some (normalizeModelName (modelId a)))
                                (Some (normalizeModelName envModel)))
                         detected)
                  (Some ''gpt-4.1''))
           [])"

text \<open>
  \<^verbatim>\<open>const budget = Number.isFinite(budgetTokens) && budgetTokens > 0
    ? budgetTokens : budgetForModel(resolvedModel, cfg.modelContexts);\<close>
\<close>

definition resolvedBudget :: "env \<Rightarrow> config \<Rightarrow> string option \<Rightarrow> args \<Rightarrow> int" where
  "resolvedBudget E cfg detected a =
     (case budgetTokens a of
        Some b \<Rightarrow>
          (if b > 0 then b
           else budgetForModel (js_times E) (resolvedModel E detected a) (cfg_modelContexts cfg))
      | None \<Rightarrow> budgetForModel (js_times E) (resolvedModel E detected a) (cfg_modelContexts cfg))"

text \<open>\<open>const preset = cfg.preset === "auto" ? detectPreset(repoRoot) : cfg.preset;\<close>\<close>

definition resolvedPreset :: "fs \<Rightarrow> config \<Rightarrow> args \<Rightarrow> string" where
  "resolvedPreset fs cfg a =
     (if cfg_preset cfg = ''auto'' then detectPreset fs (repoRoot a) else cfg_preset cfg)"

text \<open>
  One tier of the loop: the plan, the files, their byte sum, the estimate.
  \<^verbatim>\<open>const plan = repomixArgsFor(preset, target, cfg.outputDir, mode);
  const include = plan.include;
  const filePaths = await listFiles({ repoRoot, include });
  const totalBytes = sumFileSizes(filePaths);
  const estTokens = estimateTokensFromBytes(totalBytes, cfg.tokenEstimator.charsPerToken);\<close>
\<close>

definition tierFiles :: "env \<Rightarrow> fs \<Rightarrow> config \<Rightarrow> args \<Rightarrow> string \<Rightarrow> string \<Rightarrow> string list" where
  "tierFiles E fs cfg a preset mode =
     (let plan = repomixArgsFor preset (target a) (cfg_outputDir cfg) mode
      in listFiles E fs (repoRoot a) (plan_include plan) [])"

definition tierEstimate :: "env \<Rightarrow> fs \<Rightarrow> config \<Rightarrow> args \<Rightarrow> string \<Rightarrow> string \<Rightarrow> jsnum" where
  "tierEstimate E fs cfg a preset mode =
     estimateTokensFromBytes (sumFileSizes fs (tierFiles E fs cfg a preset mode))
       (charsPerToken (cfg_tokenEstimator cfg))"

text \<open>
  The object literal \<open>meta\<close>, in the order of its properties.
\<close>

definition meta_record ::
  "args \<Rightarrow> string \<Rightarrow> string \<Rightarrow> int \<Rightarrow> string \<Rightarrow> int \<Rightarrow> built \<Rightarrow> (string \<times> json) list" where
  "meta_record a preset model budget mode estTokens b =
     [(''repoRoot'', JStr (repoRoot a)),
      (''preset'', JStr preset),
      (''target'', JStr (target a)),
      (''model'', JStr model),
      (''budgetTokens'', JNum (of_int budget)),
      (''mode'', JStr mode),
      (''totalTokens'', JNum (of_int estTokens)),
      (''totalFiles'', JNum (of_nat (totalFiles b))),
      (''totalChars'', JNum (of_nat (totalChars b)))]"

text \<open>
  The loop \<open>for (const mode of modes)\<close>, and after it
  \<^verbatim>\<open>throw new Error(`Unable to generate slice within budget=${budget} tokens`);\<close>
  The result pairs what the call returns or throws with the file system it leaves.
\<close>

fun tryModes ::
  "env \<Rightarrow> fs \<Rightarrow> config \<Rightarrow> args \<Rightarrow> string \<Rightarrow> string \<Rightarrow> int \<Rightarrow> string \<Rightarrow> string list
     \<Rightarrow> (error + (string \<times> json) list) \<times> fs" where
  "tryModes E fs cfg a outDir model budget preset [] =
     (Inl (Error (''Unable to generate slice within budget='' @ show_int budget @ '' tokens'')), fs)"
| "tryModes E fs cfg a outDir model budget preset (mode # modes) =
     (let filePaths = tierFiles E fs cfg a preset mode;
          estTokens = tierEstimate E fs cfg a preset mode
      in case estTokens of
           Fin n \<Rightarrow>
             if n \<le> budget then
               (case buildXml fs (repoRoot a) filePaths (maxFileBytes (cfg_tokenEstimator cfg)) True of
                  Inl e \<Rightarrow> (Inl e, fs)
                | Inr b \<Rightarrow>
                    (case writeFileSync fs (join outDir ''active_context.xml'') (xml b) of
                       Inl e \<Rightarrow> (Inl e, fs)
                     | Inr fs1 \<Rightarrow>
                         (let meta = meta_record a preset model budget mode n b in
                          case writeFileSync fs1 (join outDir ''active_context.meta.json'')
                                 (JSON_stringify E (JObj meta)) of
                            Inl e \<Rightarrow> (Inl e, fs1)
                          | Inr fs2 \<Rightarrow> (Inr meta, fs2))))
             else tryModes E fs cfg a outDir model budget preset modes
         | _ \<Rightarrow> tryModes E fs cfg a outDir model budget preset modes)"

text \<open>
  \<open>focusAuto\<close>: the configuration, then \<open>mkdirSync(outDir, { recursive: true })\<close>,
  then the probe, which leaves its snapshots in the file system, then the model,
  the budget, the preset and the loop over the tiers.
\<close>

definition focusAuto :: "env \<Rightarrow> fs \<Rightarrow> args \<Rightarrow> (error + (string \<times> json) list) \<times> fs" where
  "focusAuto E fs a =
     (case loadConfig E fs (repoRoot a) of
        Inl e \<Rightarrow> (Inl e, fs)
      | Inr cfg \<Rightarrow>
          (let outDir = join (repoRoot a) (cfg_outputDir cfg) in
           case mkdirSync_recursive fs outDir of
             Inl e \<Rightarrow> (Inl e, fs)
           | Inr fs1 \<Rightarrow>
               (case detectModelFromVSCodeGlobalState E fs1 of
                  (detected, fs2) \<Rightarrow>
                    (let model = resolvedModel E detected a;
                         budget = resolvedBudget E cfg detected a;
                         preset = resolvedPreset fs2 cfg a;
                         modes = chooseModes budget
                     in tryModes E fs2 cfg a outDir model budget preset modes))))"

section \<open>Example inputs\<close>

text \<open>
  A repository \<open>/repo\<close> without a configuration file, in which the glob expansion
  finds three files; the second file has \<open>n\<close> bytes. \<open>ex_fs_prior\<close> is the same
  repository after an earlier successful run: the output directory and the two
  output files exist. \<open>ex_cfg\<close> is the configuration \<open>loadConfig\<close> returns
  there (the built-in defaults). \<open>ex_fs_badcfg\<close> holds a configuration file that
  \<open>JSON.parse\<close> rejects, and \<open>ex_fs_cdata\<close> one source file with \<open>]]>\<close> in
  its text. In \<open>ex_env\<close> there is no \<open>sqlite3\<close>; in \<open>ex_env_probe\<close> there is,
  its query fails, and \<open>ex_fs_vscode\<close> has an editor state for the probe to copy.
  The examples multiply doubles only where the product is exact.
\<close>

definition ex_env :: env where
  "ex_env = \<lparr>COPILOT_MODEL = None, VSCODE_COPILOT_MODEL = None, LM_MODEL = None,
             APPDATA = None, homedir = ''/home/u'', tmpdir = ''/tmp'', pid = ''42'',
             random_hex = (\<lambda>i. ''8f3a''),
             sqlite3_version_ok = False,
             sqlite3_query = (\<lambda>fs snapshot. (False, [])),
             js_times = (\<lambda>x y. x * y),
             fast_glob = (\<lambda>fs cwd inc ign. [''src/a.js'', ''src/b.js'', ''README.md'']),
             ig_ignores = (\<lambda>rules rel. False),
             JSON_parse = (\<lambda>t. None),
             JSON_stringify = (\<lambda>j. ''{}'')\<rparr>"


definition ex_fs :: "nat \<Rightarrow> fs" where
  "ex_fs n = [''/repo'' \<mapsto> Directory,
              ''/repo/src'' \<mapsto> Directory,
              ''/repo/src/a.js'' \<mapsto> RegFile 1500 ''a'',
              ''/repo/src/b.js'' \<mapsto> RegFile n ''b'',
              ''/repo/README.md'' \<mapsto> RegFile 1000 ''r'']"

definition ex_fs_prior :: fs where
  "ex_fs_prior = [''/repo'' \<mapsto> Directory,
                  ''/repo/src'' \<mapsto> Directory,
                  ''/repo/src/a.js'' \<mapsto> RegFile 1500 ''a'',
                  ''/repo/src/b.js'' \<mapsto> RegFile 1500 ''b'',
                  ''/repo/README.md'' \<mapsto> RegFile 1000 ''r'',
                  ''/repo/.context-slicer'' \<mapsto> Directory,
                  ''/repo/.context-slicer/active_context.xml'' \<mapsto> RegFile 3 ''old'',
                  ''/repo/.context-slicer/active_context.meta.json'' \<mapsto> RegFile 2 ''{}'']"


definition ex_args :: "int option \<Rightarrow> args" where
  "ex_args b = \<lparr>repoRoot = ''/repo'', target = ''src'', modelId = None, budgetTokens = b\<rparr>"

definition ex_cfg :: config where
  "ex_cfg =
     \<lparr>cfg_outputDir = ''.context-slicer'',
      cfg_modelContexts =
        \<lparr>models = Some
              [(''gpt-4.1'', \<lparr>contextWindowTokens = Some 64000\<rparr>),
               (''gpt-4o'', \<lparr>contextWindowTokens = Some 64000\<rparr>),
               (''gpt-5'', \<lparr>contextWindowTokens = Some 128000\<rparr>),
               (''gpt-5-mini'', \<lparr>contextWindowTokens = Some 128000\<rparr>),
               (''gpt-5.1'', \<lparr>contextWindowTokens = Some 128000\<rparr>),
               (''gpt-5.1-codex'', \<lparr>contextWindowTokens = Some 128000\<rparr>),
               (''gpt-5.2'', \<lparr>contextWindowTokens = Some 128000\<rparr>),
               (''gpt-5.2-codex'', \<lparr>contextWindowTokens = Some 272000\<rparr>),
               (''gpt-5.3-codex'', \<lparr>contextWindowTokens = Some 272000\<rparr>)],
         policy = Some \<lparr>targetFractionOfContext = Some (1 / 4),
                        minBudgetTokens = Some 6000, maxBudgetTokens = Some 60000\<rparr>\<rparr>,
      cfg_preset = ''auto'',
      cfg_tokenEstimator = \<lparr>charsPerToken = 4, maxFileBytes = 1048576\<rparr>\<rparr>"



section \<open>Properties of the configuration merge\<close>

lemma mergeEntries_lookup:
  "distinct (map fst es) \<Longrightarrow> mergeEntries out es = Some out' \<Longrightarrow> k \<noteq> ''__proto__'' \<Longrightarrow>
   map_of out' k =
     (case map_of es k of
        None \<Rightarrow> map_of out k
      | Some v \<Rightarrow> (case map_of out k of Some bv \<Rightarrow> deepMerge bv v | None \<Rightarrow> Some v))"
proof (induction es arbitrary: out)
  case Nil
  then show ?case by simp
next
  case (Cons p es)
  obtain k' v' where p: "p = (k', v')" by (cases p)
  from Cons.prems(1) p have d: "distinct (map fst es)" and nin: "k' \<notin> fst ` set es" by auto
  from nin have none: "map_of es k' = None" by (simp add: map_of_eq_None_iff)
  show ?case
  proof (cases "map_of out k'")
    case (Some bv)
    with Cons.prems(2) p obtain r where r: "deepMerge bv v' = Some r"
      and rest: "mergeEntries (AList.update k' r out) es = Some out'"
      by (auto split: option.splits)
    note ih = Cons.IH[OF d rest Cons.prems(3)]
    show ?thesis
    proof (cases "k = k'")
      case True
      with ih p none Some r show ?thesis by (simp add: update_conv')
    next
      case False
      with ih p show ?thesis by (simp add: update_conv' split: option.split)
    qed
  next
    case None
    show ?thesis
    proof (cases "k' = ''__proto__''")
      case True
      with Cons.prems(2) p None have rest: "mergeEntries out es = Some out'"
        by (auto split: if_splits)
      from True Cons.prems(3) have "k \<noteq> k'" by simp
      with Cons.IH[OF d rest Cons.prems(3)] p show ?thesis by simp
    next
      case False
      with Cons.prems(2) p None have rest: "mergeEntries (AList.update k' v' out) es = Some out'"
        by simp
      note ih = Cons.IH[OF d rest Cons.prems(3)]
      show ?thesis
      proof (cases "k = k'")
        case True
        with ih p none None show ?thesis by (simp add: update_conv')
      next
        case False
        with ih p show ?thesis by (simp add: update_conv' split: option.split)
      qed
    qed
  qed
qed

text \<open>
  For every key of the override other than \<open>__proto__\<close>, a merge of two objects
  holds the override's value merged over the default's value of that key, or the
  override's value as it is (an array too) when the default has no such key.
\<close>

lemma deepMerge_other_keys:
  assumes "distinct (map fst e)" and "deepMerge (JObj b) (JObj e) = Some r"
    and "map_of e k = Some v" and "k \<noteq> ''__proto__''"
  shows "field r k = (case map_of b k of Some bv \<Rightarrow> deepMerge bv v | None \<Rightarrow> Some v)"
proof -
  from assms(2) obtain out' where out: "mergeEntries b e = Some out'" and r: "r = JObj out'"
    by auto
  from mergeEntries_lookup[OF assms(1) out assms(4)] assms(3) r show ?thesis
    by (simp add: field_def)
qed

text \<open>
  C8. The code gives every key of the override document the override's value, but
  not the key \<open>__proto__\<close>: \<open>k in out\<close> finds it on the prototype chain and the
  assignment \<open>out[k] = ...\<close> runs the inherited setter, which drops a string.
  For the default \<open>{"a": "1"}\<close> and the override \<open>{"__proto__": "x"}\<close> the merge
  returns the default unchanged, with no key \<open>__proto__\<close>; so it does where
  \<open>loadConfig\<close> calls it, on the built-in defaults. With the key \<open>b\<close> in place
  of \<open>__proto__\<close> the value is there.
\<close>

theorem deepMerge_drops_proto_key:
  "deepMerge (JObj [(''a'', JStr ''1'')]) (JObj [(''__proto__'', JStr ''x'')]) =
     Some (JObj [(''a'', JStr ''1'')])
   \<and> field (JObj [(''a'', JStr ''1'')]) ''__proto__'' = None
   \<and> deepMerge DEFAULT_MODEL_CONTEXTS (JObj [(''__proto__'', JStr ''x'')]) =
       Some DEFAULT_MODEL_CONTEXTS
   \<and> deepMerge (JObj [(''a'', JStr ''1'')]) (JObj [(''b'', JStr ''x'')]) =
       Some (JObj [(''a'', JStr ''1''), (''b'', JStr ''x'')])"
  by (simp add: field_def DEFAULT_MODEL_CONTEXTS_def)

section \<open>Properties of the model budget\<close>

text \<open>
  C7. \<open>normalizeModelName("copilot/gpt-5@2024-01")\<close> is \<open>"gpt-5"\<close>, but
  \<open>normalizeModelName("GPT 4.1 (Preview)")\<close> is \<open>"gpt-4.1-"\<close>: the white space
  before \<open>(preview)\<close> has become a hyphen by the time \<open>(preview)\<close> is deleted,
  a single hyphen is not a run, and \<open>trim\<close> removes white space only.
\<close>

theorem normalizeModelName_examples:
  "normalizeModelName (Some ''GPT 4.1 (Preview)'') = ''gpt-4.1-''
   \<and> normalizeModelName (Some ''GPT 4.1 (Preview)'') \<noteq> ''gpt-4.1''
   \<and> normalizeModelName (Some ''copilot/gpt-5@2024-01'') = ''gpt-5''"
  by code_simp

text \<open>
  C4. For every model identifier and every policy whose bounds satisfy
  \<open>minBudgetTokens \<le> maxBudgetTokens\<close>, with a resolved context window
  \<open>w > 0\<close> and a fraction \<open>f\<close> in \<open>(0, 1]\<close>, \<open>budgetForModel\<close> returns the
  floor of the product \<open>w * f\<close>, the product being the one JavaScript computes
  on doubles, clamped to the bounds: the lower bound when this target is below it,
  the upper bound when the target is above it, the target otherwise; so the
  result lies in the closed interval. This holds whatever the multiplication
  rounds to.
\<close>

theorem budgetForModel_clamped:
  assumes "policy ctx = Some p"
    and "targetFractionOfContext p = Some f" and "0 < f" and "f \<le> 1"
    and "minBudgetTokens p = Some lo" and "maxBudgetTokens p = Some hi" and "lo \<le> hi"
    and "windowTokens model ctx = w" and "0 < w"
  shows "budgetForModel mul model ctx =
           (if \<lfloor>mul (real_of_int w) f\<rfloor> < lo then lo
            else if hi < \<lfloor>mul (real_of_int w) f\<rfloor> then hi
            else \<lfloor>mul (real_of_int w) f\<rfloor>)
         \<and> lo \<le> budgetForModel mul model ctx \<and> budgetForModel mul model ctx \<le> hi"
  using assms by (simp add: budgetForModel_def nullish_or_def Let_def min_def max_def)

theorem budgetForModel_clamped_witness:
  "budgetForModel (\<lambda>x y. x * y) ''gpt-5.3-codex''
     \<lparr>models = Some [(''gpt-4.1'', \<lparr>contextWindowTokens = Some 64000\<rparr>),
                     (''gpt-5.3-codex'', \<lparr>contextWindowTokens = Some 272000\<rparr>)],
      policy = Some \<lparr>targetFractionOfContext = Some (1 / 4),
                      minBudgetTokens = Some 6000, maxBudgetTokens = Some 60000\<rparr>\<rparr> = 60000
   \<and> budgetForModel (\<lambda>x y. x * y) ''gpt-4.1''
     \<lparr>models = Some [(''gpt-4.1'', \<lparr>contextWindowTokens = Some 64000\<rparr>),
                     (''gpt-5.3-codex'', \<lparr>contextWindowTokens = Some 272000\<rparr>)],
      policy = Some \<lparr>targetFractionOfContext = Some (1 / 4),
                      minBudgetTokens = Some 6000, maxBudgetTokens = Some 60000\<rparr>\<rparr> = 16000"
proof -
  let ?p = "\<lparr>targetFractionOfContext = Some (1 / 4 :: real),
             minBudgetTokens = Some 6000, maxBudgetTokens = Some 60000\<rparr>"
  let ?ctx = "\<lparr>models = Some [(''gpt-4.1'', \<lparr>contextWindowTokens = Some 64000\<rparr>),
                     (''gpt-5.3-codex'', \<lparr>contextWindowTokens = Some 272000\<rparr>)],
      policy = Some ?p\<rparr>"
  have w: "windowTokens ''gpt-5.3-codex'' ?ctx = 272000"
    by (simp add: windowTokens_def resolveModelKey_def model_entry_of_def nullish_or_def)
  have w': "windowTokens ''gpt-4.1'' ?ctx = 64000"
    by (simp add: windowTokens_def resolveModelKey_def model_entry_of_def nullish_or_def)
  have "budgetForModel (\<lambda>x y. x * y) ''gpt-5.3-codex'' ?ctx =
           (if \<lfloor>real_of_int 272000 * (1 / 4)\<rfloor> < (6000 :: int) then 6000
            else if (60000 :: int) < \<lfloor>real_of_int 272000 * (1 / 4)\<rfloor> then 60000
            else \<lfloor>real_of_int 272000 * (1 / 4)\<rfloor>)"
    using budgetForModel_clamped[of ?ctx ?p "1 / 4" 6000 60000 "''gpt-5.3-codex''" 272000 "\<lambda>x y. x * y"] w
    by simp
  moreover have "budgetForModel (\<lambda>x y. x * y) ''gpt-4.1'' ?ctx =
           (if \<lfloor>real_of_int 64000 * (1 / 4)\<rfloor> < (6000 :: int) then 6000
            else if (60000 :: int) < \<lfloor>real_of_int 64000 * (1 / 4)\<rfloor> then 60000
            else \<lfloor>real_of_int 64000 * (1 / 4)\<rfloor>)"
    using budgetForModel_clamped[of ?ctx ?p "1 / 4" 6000 60000 "''gpt-4.1''" 64000 "\<lambda>x y. x * y"] w'
    by simp
  ultimately show ?thesis by simp
qed

section \<open>Properties of the tier list\<close>

text \<open>
  C5. Tier-list selection is monotonic in the budget: for budgets \<open>b1 < b2\<close> the
  list chosen for \<open>b2\<close> is at least as long as the one for \<open>b1\<close>. A budget of at
  least 45000 gets the four tiers full, lite, lite-compress, lite-compress-min in
  this order; a budget of at least 20000 and below 45000 gets the three leanest; a
  smaller budget gets the two leanest.
\<close>

theorem chooseModes_monotonic:
  "(b1 < b2 \<longrightarrow> length (chooseModes b1) \<le> length (chooseModes b2))
   \<and> (45000 \<le> b \<longrightarrow> chooseModes b = [''full'', ''lite'', ''lite-compress'', ''lite-compress-min''])
   \<and> (20000 \<le> b \<and> b < 45000 \<longrightarrow> chooseModes b = [''lite'', ''lite-compress'', ''lite-compress-min''])
   \<and> (b < 20000 \<longrightarrow> chooseModes b = [''lite-compress'', ''lite-compress-min''])"
  by (simp add: chooseModes_def)

theorem chooseModes_monotonic_witness:
  "length (chooseModes 19999) \<le> length (chooseModes 20000)
   \<and> length (chooseModes 44999) \<le> length (chooseModes 45000)
   \<and> chooseModes 45000 = [''full'', ''lite'', ''lite-compress'', ''lite-compress-min'']
   \<and> chooseModes 20000 = [''lite'', ''lite-compress'', ''lite-compress-min'']
   \<and> chooseModes 19999 = [''lite-compress'', ''lite-compress-min'']"
  using chooseModes_monotonic[of 19999 20000 45000]
    chooseModes_monotonic[of 44999 45000 20000]
    chooseModes_monotonic[of 0 1 19999]
  by simp

section \<open>Properties of the budget fitter\<close>

subsection \<open>Errors of the file system calls, and the loop over the tiers\<close>







lemma writeFileSync_ok:
  "writeFileSync fs p t = Inr fs' \<Longrightarrow> fs' = fs(p \<mapsto> RegFile (length t) t)"
  by (auto simp: writeFileSync_def split: if_splits option.splits node.splits)

lemma tryModes_no_fit:
  "\<forall>mode \<in> set modes. \<not> js_le (tierEstimate E fs cfg a preset mode) budget \<Longrightarrow>
   tryModes E fs cfg a outDir model budget preset modes =
     (Inl (Error (''Unable to generate slice within budget='' @ show_int budget @ '' tokens'')), fs)"
  by (induction modes) (auto simp: Let_def split: jsnum.splits)


lemma tryModes_success:
  "tryModes E fs cfg a outDir model budget preset modes = (Inr meta, fs') \<Longrightarrow>
   \<exists>mode n b.
     find (\<lambda>m. js_le (tierEstimate E fs cfg a preset m) budget) modes = Some mode
     \<and> tierEstimate E fs cfg a preset mode = Fin n \<and> n \<le> budget
     \<and> buildXml fs (repoRoot a) (tierFiles E fs cfg a preset mode)
          (maxFileBytes (cfg_tokenEstimator cfg)) True = Inr b
     \<and> meta = meta_record a preset model budget mode n b
     \<and> fs' = (fs(join outDir ''active_context.xml'' \<mapsto> RegFile (length (xml b)) (xml b)))
               (join outDir ''active_context.meta.json'' \<mapsto>
                  RegFile (length (JSON_stringify E (JObj meta))) (JSON_stringify E (JObj meta)))"
proof (induction modes)
  case Nil
  then show ?case by simp
next
  case (Cons mode modes)
  show ?case
  proof (cases "js_le (tierEstimate E fs cfg a preset mode) budget")
    case True
    then obtain n where n: "tierEstimate E fs cfg a preset mode = Fin n" "n \<le> budget"
      by (cases "tierEstimate E fs cfg a preset mode") simp_all
    from Cons.prems n True show ?thesis
      by (auto simp: Let_def split: sum.splits dest!: writeFileSync_ok)
  next
    case False
    then have step: "tryModes E fs cfg a outDir model budget preset (mode # modes) =
        tryModes E fs cfg a outDir model budget preset modes"
      by (cases "tierEstimate E fs cfg a preset mode") (simp_all add: Let_def)
    with Cons False show ?thesis by simp
  qed
qed



subsection \<open>What the directory creation and the model probe write\<close>

lemma mkdirSync_recursive_ok:
  "mkdirSync_recursive fs p = Inr fs1 \<Longrightarrow>
   fs1 = with_dirs fs (parent_dirs p @ [p])
   \<and> \<not> is_regular fs p \<and> (\<forall>q \<in> set (parent_dirs p). \<not> is_regular fs q)"
  by (auto simp: mkdirSync_recursive_def list_ex_iff split: if_splits)












lemma focusAuto_run:
  "loadConfig E fs (repoRoot a) = Inr cfg \<Longrightarrow>
   mkdirSync_recursive fs (join (repoRoot a) (cfg_outputDir cfg)) = Inr fs1 \<Longrightarrow>
   detectModelFromVSCodeGlobalState E fs1 = (detected, fs2) \<Longrightarrow>
   focusAuto E fs a =
     tryModes E fs2 cfg a (join (repoRoot a) (cfg_outputDir cfg)) (resolvedModel E detected a)
       (resolvedBudget E cfg detected a) (resolvedPreset fs2 cfg a)
       (chooseModes (resolvedBudget E cfg detected a))"
  by (simp add: focusAuto_def Let_def)

lemma js_gt_not_le: "js_gt x b \<Longrightarrow> \<not> js_le x b"
  by (cases x) simp_all

section \<open>Evaluating the example runs\<close>

lemma typed_config_empty: "typed_config (JObj []) = Some ex_cfg"
  by (simp add: typed_config_def opt_field_def field_def nullish_or_def DEFAULT_MODEL_CONTEXTS_def
      read_model_contexts_def read_entry_def DEFAULT_OUTPUT_DIR_def ex_cfg_def)

lemma normalizeModelName_None: "normalizeModelName None = []"
  by (simp add: normalizeModelName_def nullish_or_def trim_def toLowerCase_def)

lemma ex_loadConfig: "loadConfig ex_env (ex_fs n) ''/repo'' = Inr ex_cfg"
  by (simp add: loadConfig_def existsSync_def join_def ex_fs_def typed_config_empty)

lemma ex_loadConfig_prior: "loadConfig ex_env ex_fs_prior ''/repo'' = Inr ex_cfg"
  by (simp add: loadConfig_def existsSync_def join_def ex_fs_prior_def typed_config_empty)


lemma ex_parent_dirs: "parent_dirs ''/repo/.context-slicer'' = [''/repo'']"
  by (simp add: parent_dirs_def)

lemma ex_dirname:
  "dirname ''/repo/.context-slicer/active_context.xml'' = ''/repo/.context-slicer''"
  "dirname ''/repo/.context-slicer/active_context.meta.json'' = ''/repo/.context-slicer''"
  "dirname ''/tmp/vscode-state-42-8f3a.vscdb'' = ''/tmp''"
  by (simp_all add: dirname_def)



lemma ex_detect: "detectModelFromVSCodeGlobalState ex_env fs = (None, fs)"
  by (simp add: detectModelFromVSCodeGlobalState_def ex_env_def)

lemmas ex_eval =
  focusAuto_def existsSync_def join_def ex_fs_def ex_fs_prior_def ex_env_def ex_args_def ex_cfg_def
  mkdirSync_recursive_def ex_parent_dirs with_dirs_def is_regular_def ex_dirname
  detectModelFromVSCodeGlobalState_def
  resolvedModel_def resolvedBudget_def resolvedPreset_def detectPreset_def
  chooseModes_def normalizeModelName_None js_or_def nullish_or_def tierFiles_def tierEstimate_def
  repomixArgsFor_def listFiles_def createGitignoreFilter_def loadGitignore_def relative_def
  sumFileSizes_def statSync_def estimateTokensFromBytes_def buildXml_def safeReadText_def
  readFileSync_def stripEmptyLines_def trim_def is_space_def file_entry_def escapeXmlAttr_def
  cdata_def document_def writeFileSync_def meta_record_def DEFAULT_IGNORE_def show_int_def
  digits.simps

lemma ex_run_fail:
  "fst (focusAuto ex_env (ex_fs n) (ex_args (Some 1))) =
     Inl (Error ''Unable to generate slice within budget=1 tokens'')"
  using ex_loadConfig[of n] by (simp add: ex_eval)

lemma ex_run_fail_prior:
  "fst (focusAuto ex_env ex_fs_prior (ex_args (Some 1))) =
     Inl (Error ''Unable to generate slice within budget=1 tokens'')"
  using ex_loadConfig_prior by (simp add: ex_eval Let_def)

lemma ex_run_ok:
  "fst (focusAuto ex_env (ex_fs 1500) (ex_args (Some 6000))) =
     Inr [(''repoRoot'', JStr ''/repo''), (''preset'', JStr ''generic''), (''target'', JStr ''src''),
          (''model'', JStr ''gpt-4.1''), (''budgetTokens'', JNum 6000),
          (''mode'', JStr ''lite-compress''), (''totalTokens'', JNum 1000),
          (''totalFiles'', JNum 3), (''totalChars'', JNum 3)]"
  using ex_loadConfig[of 1500] by (simp add: ex_eval)

lemma ex_mkdir:
  "mkdirSync_recursive (ex_fs n) (join (repoRoot (ex_args b)) (cfg_outputDir ex_cfg)) =
     Inr (with_dirs (ex_fs n) [''/repo'', ''/repo/.context-slicer''])"
  by (simp add: mkdirSync_recursive_def ex_args_def ex_cfg_def join_def ex_parent_dirs
      is_regular_def ex_fs_def)

lemma ex_estimates:
  "tierEstimate ex_env (with_dirs (ex_fs 1500) [''/repo'', ''/repo/.context-slicer'']) ex_cfg
     (ex_args b) ''generic'' m = Fin 1000"
  "tierEstimate ex_env (with_dirs (ex_fs 5500) [''/repo'', ''/repo/.context-slicer'']) ex_cfg
     (ex_args b) ''generic'' m = Fin 2000"
  by (simp_all add: ex_eval)

lemma ex_preset:
  "resolvedPreset (with_dirs (ex_fs n) [''/repo'', ''/repo/.context-slicer'']) ex_cfg (ex_args b) = ''generic''"
  by (simp add: ex_eval)




subsection \<open>The failure when no tier fits\<close>

text \<open>
  C1, as amended. When the configuration loads and the output directory can be
  created, and every tier of the budget-selected tier list yields an estimate
  strictly greater than the budget, \<open>focusAuto\<close> fails with an error whose message
  names the attempted budget, \<open>Unable to generate slice within budget=<budget> tokens\<close>,
  and returns no metadata record. The error is a plain \<open>Error\<close> and holds nothing
  but this message. (\<open>fs1\<close> names the file system after the directory creation,
  \<open>detected\<close> and \<open>fs2\<close> what the model probe returns and leaves.)
\<close>

theorem focusAuto_budget_error:
  assumes "loadConfig E fs (repoRoot a) = Inr cfg"
    and "mkdirSync_recursive fs (join (repoRoot a) (cfg_outputDir cfg)) = Inr fs1"
    and "detectModelFromVSCodeGlobalState E fs1 = (detected, fs2)"
    and "\<forall>mode \<in> set (chooseModes (resolvedBudget E cfg detected a)).
           js_gt (tierEstimate E fs2 cfg a (resolvedPreset fs2 cfg a) mode)
             (resolvedBudget E cfg detected a)"
  shows "fst (focusAuto E fs a) =
           Inl (Error (''Unable to generate slice within budget=''
                        @ show_int (resolvedBudget E cfg detected a) @ '' tokens''))"
proof -
  from assms(4) have "\<forall>mode \<in> set (chooseModes (resolvedBudget E cfg detected a)).
      \<not> js_le (tierEstimate E fs2 cfg a (resolvedPreset fs2 cfg a) mode)
          (resolvedBudget E cfg detected a)"
    by (blast dest: js_gt_not_le)
  from tryModes_no_fit[OF this] show ?thesis
    by (simp add: focusAuto_run[OF assms(1,2,3)])
qed

theorem focusAuto_budget_error_witness:
  "loadConfig ex_env (ex_fs 1500) ''/repo'' = Inr ex_cfg
   \<and> chooseModes (resolvedBudget ex_env ex_cfg None (ex_args (Some 1))) =
       [''lite-compress'', ''lite-compress-min'']
   \<and> js_gt (tierEstimate ex_env (with_dirs (ex_fs 1500) [''/repo'', ''/repo/.context-slicer'']) ex_cfg
              (ex_args (Some 1)) ''generic'' ''lite-compress'') 1
   \<and> js_gt (tierEstimate ex_env (with_dirs (ex_fs 1500) [''/repo'', ''/repo/.context-slicer'']) ex_cfg
              (ex_args (Some 1)) ''generic'' ''lite-compress-min'') 1
   \<and> fst (focusAuto ex_env (ex_fs 1500) (ex_args (Some 1))) =
        Inl (Error ''Unable to generate slice within budget=1 tokens'')"
proof -
  let ?a = "ex_args (Some 1)"
  let ?fs1 = "with_dirs (ex_fs 1500) [''/repo'', ''/repo/.context-slicer'']"
  have cfg: "loadConfig ex_env (ex_fs 1500) (repoRoot ?a) = Inr ex_cfg"
    using ex_loadConfig[of 1500] by (simp add: ex_args_def)
  have b: "resolvedBudget ex_env ex_cfg None ?a = 1"
    by (simp add: resolvedBudget_def ex_args_def)
  have modes: "chooseModes (resolvedBudget ex_env ex_cfg None ?a) = [''lite-compress'', ''lite-compress-min'']"
    by (simp add: b chooseModes_def)
  have gt: "\<And>m. js_gt (tierEstimate ex_env ?fs1 ex_cfg ?a ''generic'' m) 1"
    by (simp add: ex_estimates)
  have all: "\<forall>mode \<in> set (chooseModes (resolvedBudget ex_env ex_cfg None ?a)).
      js_gt (tierEstimate ex_env ?fs1 ex_cfg ?a (resolvedPreset ?fs1 ex_cfg ?a) mode)
        (resolvedBudget ex_env ex_cfg None ?a)"
    using gt by (simp add: b ex_preset)
  from focusAuto_budget_error[OF cfg ex_mkdir ex_detect all]
  have "fst (focusAuto ex_env (ex_fs 1500) ?a) =
      Inl (Error ''Unable to generate slice within budget=1 tokens'')"
    by (simp add: b show_int_def digits.simps)
  with ex_loadConfig[of 1500] modes gt show ?thesis by simp
qed

text \<open>
  C1 as stated fails: the error does not carry the best estimate. Two runs with
  the budget 1, whose tiers all estimate 1000 tokens in one repository and 2000
  tokens in the other, fail with one and the same error value.
\<close>

theorem error_without_estimate_counterexample:
  "fst (focusAuto ex_env (ex_fs 1500) (ex_args (Some 1))) =
     Inl (Error ''Unable to generate slice within budget=1 tokens'')
   \<and> fst (focusAuto ex_env (ex_fs 5500) (ex_args (Some 1))) =
     Inl (Error ''Unable to generate slice within budget=1 tokens'')
   \<and> tierEstimate ex_env (with_dirs (ex_fs 1500) [''/repo'', ''/repo/.context-slicer'']) ex_cfg
        (ex_args (Some 1)) ''generic'' ''lite-compress'' = Fin 1000
   \<and> tierEstimate ex_env (with_dirs (ex_fs 1500) [''/repo'', ''/repo/.context-slicer'']) ex_cfg
        (ex_args (Some 1)) ''generic'' ''lite-compress-min'' = Fin 1000
   \<and> tierEstimate ex_env (with_dirs (ex_fs 5500) [''/repo'', ''/repo/.context-slicer'']) ex_cfg
        (ex_args (Some 1)) ''generic'' ''lite-compress'' = Fin 2000
   \<and> tierEstimate ex_env (with_dirs (ex_fs 5500) [''/repo'', ''/repo/.context-slicer'']) ex_cfg
        (ex_args (Some 1)) ''generic'' ''lite-compress-min'' = Fin 2000"
  by (simp add: ex_run_fail ex_estimates)






subsection \<open>The metadata record\<close>

text \<open>
  C3, as amended. On every successful fit, the metadata record that \<open>focusAuto\<close>
  returns has exactly the nine fields \<open>repoRoot\<close>, \<open>preset\<close>, \<open>target\<close>,
  \<open>model\<close>, \<open>budgetTokens\<close>, \<open>mode\<close>, \<open>totalTokens\<close>, \<open>totalFiles\<close>,
  \<open>totalChars\<close>, in this order; the field \<open>mode\<close> holds the name of the winning
  tier, the first tier of the list whose estimate is within the budget; and
  \<open>active_context.meta.json\<close> holds \<open>JSON.stringify\<close> of this record.
  (\<open>outDir\<close> names the output directory, \<open>detected\<close> and \<open>fs2\<close> what the model
  probe returns and leaves after the directory creation.)
\<close>

theorem focusAuto_metadata_fields:
  assumes "focusAuto E fs a = (Inr meta, fs')"
    and "loadConfig E fs (repoRoot a) = Inr cfg"
    and "outDir = join (repoRoot a) (cfg_outputDir cfg)"
    and "detectModelFromVSCodeGlobalState E (with_dirs fs (parent_dirs outDir @ [outDir])) =
           (detected, fs2)"
  shows "map fst meta =
           [''repoRoot'', ''preset'', ''target'', ''model'', ''budgetTokens'', ''mode'',
            ''totalTokens'', ''totalFiles'', ''totalChars'']
       \<and> fs' (join outDir ''active_context.meta.json'') =
           Some (RegFile (length (JSON_stringify E (JObj meta))) (JSON_stringify E (JObj meta)))
       \<and> (\<exists>mode. map_of meta ''mode'' = Some (JStr mode)
             \<and> find (\<lambda>m. js_le (tierEstimate E fs2 cfg a (resolvedPreset fs2 cfg a) m)
                                 (resolvedBudget E cfg detected a))
                  (chooseModes (resolvedBudget E cfg detected a)) = Some mode)"
proof -
  let ?b = "resolvedBudget E cfg detected a"
  obtain fs1 where mk: "mkdirSync_recursive fs outDir = Inr fs1"
  proof (cases "mkdirSync_recursive fs outDir")
    case (Inl e)
    with assms(1,2,3) have False by (simp add: focusAuto_def Let_def)
    then show ?thesis ..
  next
    case (Inr fs1)
    then show ?thesis by (rule that)
  qed
  from mkdirSync_recursive_ok[OF mk] have upd: "fs1 = with_dirs fs (parent_dirs outDir @ [outDir])"
    by simp
  from assms(4) have probe: "detectModelFromVSCodeGlobalState E fs1 = (detected, fs2)"
    by (simp add: upd)
  note run = focusAuto_run[OF assms(2) mk[unfolded assms(3)] probe]
  from assms(1) have "tryModes E fs2 cfg a outDir (resolvedModel E detected a)
       ?b (resolvedPreset fs2 cfg a) (chooseModes ?b) = (Inr meta, fs')"
    by (simp add: run assms(3))
  from tryModes_success[OF this] obtain mode n b where
    f: "find (\<lambda>m. js_le (tierEstimate E fs2 cfg a (resolvedPreset fs2 cfg a) m) ?b)
          (chooseModes ?b) = Some mode"
    and m: "meta = meta_record a (resolvedPreset fs2 cfg a) (resolvedModel E detected a) ?b mode n b"
    and w: "fs' = (fs2(join outDir ''active_context.xml'' \<mapsto> RegFile (length (xml b)) (xml b)))
               (join outDir ''active_context.meta.json'' \<mapsto>
                  RegFile (length (JSON_stringify E (JObj meta))) (JSON_stringify E (JObj meta)))"
    by blast
  have "map fst meta = [''repoRoot'', ''preset'', ''target'', ''model'', ''budgetTokens'', ''mode'',
            ''totalTokens'', ''totalFiles'', ''totalChars'']"
    by (simp add: m meta_record_def)
  moreover have "map_of meta ''mode'' = Some (JStr mode)"
    by (simp add: m meta_record_def)
  moreover have "fs' (join outDir ''active_context.meta.json'') =
           Some (RegFile (length (JSON_stringify E (JObj meta))) (JSON_stringify E (JObj meta)))"
    by (simp add: w)
  ultimately show ?thesis using f by blast
qed

theorem focusAuto_metadata_fields_witness:
  "fst (focusAuto ex_env (ex_fs 1500) (ex_args (Some 6000))) =
     Inr [(''repoRoot'', JStr ''/repo''), (''preset'', JStr ''generic''), (''target'', JStr ''src''),
          (''model'', JStr ''gpt-4.1''), (''budgetTokens'', JNum 6000),
          (''mode'', JStr ''lite-compress''), (''totalTokens'', JNum 1000),
          (''totalFiles'', JNum 3), (''totalChars'', JNum 3)]
   \<and> loadConfig ex_env (ex_fs 1500) ''/repo'' = Inr ex_cfg
   \<and> snd (focusAuto ex_env (ex_fs 1500) (ex_args (Some 6000)))
        ''/repo/.context-slicer/active_context.meta.json'' = Some (RegFile 2 ''{}'')"
proof -
  let ?a = "ex_args (Some 6000)"
  let ?m = "[(''repoRoot'', JStr ''/repo''), (''preset'', JStr ''generic''), (''target'', JStr ''src''),
          (''model'', JStr ''gpt-4.1''), (''budgetTokens'', JNum 6000),
          (''mode'', JStr ''lite-compress''), (''totalTokens'', JNum 1000),
          (''totalFiles'', JNum 3), (''totalChars'', JNum 3)]"
  have run: "focusAuto ex_env (ex_fs 1500) ?a = (Inr ?m, snd (focusAuto ex_env (ex_fs 1500) ?a))"
    using ex_run_ok by (simp add: prod_eq_iff)
  have cfg: "loadConfig ex_env (ex_fs 1500) (repoRoot ?a) = Inr ex_cfg"
    using ex_loadConfig[of 1500] by (simp add: ex_args_def)
  have out: "''/repo/.context-slicer'' = join (repoRoot ?a) (cfg_outputDir ex_cfg)"
    by (simp add: ex_args_def ex_cfg_def join_def)
  from focusAuto_metadata_fields[OF run cfg out ex_detect]
  have "snd (focusAuto ex_env (ex_fs 1500) ?a) ''/repo/.context-slicer/active_context.meta.json'' =
      Some (RegFile 2 ''{}'')"
    by (simp add: join_def ex_env_def)
  then show ?thesis using ex_run_ok ex_loadConfig[of 1500] by simp
qed

text \<open>
  C3 as stated fails: the record of a successful run has no field \<open>tier\<close>; the
  winning strategy name is in the field \<open>mode\<close>.
\<close>

theorem metadata_tier_field_counterexample:
  "map_sum id (\<lambda>m. (map fst m, map_of m ''tier'', map_of m ''mode''))
     (fst (focusAuto ex_env (ex_fs 1500) (ex_args (Some 6000)))) =
   Inr ([''repoRoot'', ''preset'', ''target'', ''model'', ''budgetTokens'', ''mode'',
         ''totalTokens'', ''totalFiles'', ''totalChars''],
        None, Some (JStr ''lite-compress''))"
  by (simp add: ex_run_ok)

subsection \<open>The size ceiling\<close>

text \<open>
  C2. A file above \<open>maxFileBytes\<close> is left out of the packed artifact by
  \<open>safeReadText\<close>, but \<open>sumFileSizes\<close> does not know the ceiling: the file's
  size is in the byte sum and in the estimate. With a second file of 2000000
  bytes (the ceiling is 1048576), the byte sum is 2002500, two of the three files
  are packed, the estimate is 500625 tokens, and a run with the budget 6000 fails
  although the two files it would pack have 2500 bytes.
\<close>

theorem oversize_file_counted_in_estimate:
  "maxFileBytes (cfg_tokenEstimator ex_cfg) = 1048576
   \<and> ex_fs 2000000 ''/repo/src/b.js'' = Some (RegFile 2000000 ''b'')
   \<and> sumFileSizes (ex_fs 2000000) [''/repo/src/a.js'', ''/repo/src/b.js'', ''/repo/README.md''] = 2002500
   \<and> map_sum id totalFiles
        (buildXml (ex_fs 2000000) ''/repo'' [''/repo/src/a.js'', ''/repo/src/b.js'', ''/repo/README.md'']
           1048576 True) = Inr 2
   \<and> tierEstimate ex_env (ex_fs 2000000) ex_cfg (ex_args (Some 6000)) ''generic'' ''lite-compress''
        = Fin 500625
   \<and> fst (focusAuto ex_env (ex_fs 2000000) (ex_args (Some 6000))) =
        Inl (Error ''Unable to generate slice within budget=6000 tokens'')"
  using ex_loadConfig[of 2000000] by (simp add: ex_eval)

section \<open>Properties of the packed document\<close>






























end
